theory Spec2Isabelle
  imports Main
begin

section \<open>JavaScript values\<close>

text \<open>
  The values the modelled snippets handle. Numbers are the integers the snippets use
  (HTTP status codes, ages, ports); \<open>Undefined\<close> is JavaScript's \<open>undefined\<close>.
\<close>

datatype jsval =
    Undefined
  | Null
  | JBool bool
  | JNum int
  | JStr string
  | JObj "(string \<times> jsval) list"



section \<open>Strings and arrays\<close>

text \<open>
  \<open>s.split(c)\<close> for a one-character separator: the pieces of \<open>s\<close> between the
  occurrences of \<open>c\<close>. There is always at least one piece; the empty string splits
  into one empty piece.
\<close>

fun str_split :: "char \<Rightarrow> string \<Rightarrow> string list" where
  "str_split c [] = [[]]"
| "str_split c (x # xs) =
     (if x = c then [] # str_split c xs
      else (case str_split c xs of [] \<Rightarrow> [[x]] | w # ws \<Rightarrow> (x # w) # ws))"

text \<open>\<open>xs[i]\<close>: reading an array out of range gives \<open>undefined\<close>, here \<open>None\<close>.\<close>

definition index_js :: "'a list \<Rightarrow> nat \<Rightarrow> 'a option" where
  "index_js xs i = (if i < length xs then Some (xs ! i) else None)"

section \<open>Requests, responses and the calls a middleware makes\<close>

text \<open>
  The parts of Express's request and response objects that the middleware of
  \<^verbatim>\<open>Workouts/middleware\<close> read or write. Both records are extensible: every
  other field of the objects lives in the record's extension, which no function here
  touches. A header that is absent reads as \<open>undefined\<close>, here \<open>None\<close>.
\<close>

record request =
  headers :: "string \<rightharpoonup> string"
  user :: jsval

datatype body = JsonBody jsval | TextBody string

text \<open>
  \<open>res.status(c)\<close> stores the status code; \<open>res.json(v)\<close> and \<open>res.send(s)\<close> send a
  response with the status code stored at that moment. \<open>sent\<close> lists the responses
  sent so far, oldest first, each with its status code as the code handed it to
  Express.
\<close>

record response =
  statusCode :: jsval
  sent :: "(jsval \<times> body) list"

text \<open>
  The calls into libraries, the framework, the platform and the console, in the order
  made. \<open>JwtVerify t k\<close> is \<open>jwt.verify(t, k)\<close> with \<open>t = None\<close> for \<open>undefined\<close>;
  \<open>ConsoleLog\<close> and \<open>ConsoleError\<close> carry the arguments of \<open>console.log\<close> and
  \<open>console.error\<close>; \<open>ClusterFork\<close> is \<open>cluster.fork()\<close>, \<open>ClusterOn e\<close> registers a
  listener for the cluster event \<open>e\<close>, \<open>AppGet p\<close> registers a GET route and
  \<open>AppListen p\<close> is \<open>app.listen(p, ...)\<close>.
\<close>

datatype call =
    JwtVerify "string option" string
  | ResStatus jsval
  | ResJson jsval
  | ResSend string
  | Next
  | ConsoleLog "jsval list"
  | ConsoleError "jsval list"
  | ClusterFork
  | ClusterOn string
  | AppGet string
  | AppListen jsval

record ('q, 's) world =
  req :: "'q request_scheme"
  res :: "'s response_scheme"
  trace :: "call list"

text \<open>How a call ends: it returns, or it throws.\<close>

datatype completion = Returned | Threw

definition res_status :: "jsval \<Rightarrow> ('q, 's) world \<Rightarrow> ('q, 's) world" where
  "res_status c w = w\<lparr>res := (res w)\<lparr>statusCode := c\<rparr>, trace := trace w @ [ResStatus c]\<rparr>"

definition res_json :: "jsval \<Rightarrow> ('q, 's) world \<Rightarrow> ('q, 's) world" where
  "res_json v w =
     w\<lparr>res := (res w)\<lparr>sent := sent (res w) @ [(statusCode (res w), JsonBody v)]\<rparr>,
       trace := trace w @ [ResJson v]\<rparr>"

definition res_send :: "string \<Rightarrow> ('q, 's) world \<Rightarrow> ('q, 's) world" where
  "res_send s w =
     w\<lparr>res := (res w)\<lparr>sent := sent (res w) @ [(statusCode (res w), TextBody s)]\<rparr>,
       trace := trace w @ [ResSend s]\<rparr>"

definition record_call :: "call \<Rightarrow> ('q, 's) world \<Rightarrow> ('q, 's) world" where
  "record_call c w = w\<lparr>trace := trace w @ [c]\<rparr>"

section \<open>The jsonwebtoken library\<close>

text \<open>
  \<open>jwt.verify(token, key)\<close> is the library's, not this repository's. It returns the
  decoded payload or throws. The library rejects a token that is \<open>undefined\<close> or the
  empty string before looking at the key (its error is "jwt must be provided"); what
  it does with any other string is the parameter \<open>lib\<close>.
\<close>

datatype jwt_error = JsonWebTokenError string | TokenExpiredError | NotBeforeError

type_synonym jwt_lib = "string \<Rightarrow> string \<Rightarrow> jwt_error + jsval"

definition jwt_verify :: "jwt_lib \<Rightarrow> string option \<Rightarrow> string \<Rightarrow> jwt_error + jsval" where
  "jwt_verify lib token key =
     (case token of
        None \<Rightarrow> Inl (JsonWebTokenError ''jwt must be provided'')
      | Some t \<Rightarrow>
          if t = [] then Inl (JsonWebTokenError ''jwt must be provided'') else lib t key)"

section \<open>Workouts/middleware/auth.js\<close>

definition SECRET_KEY :: string where
  "SECRET_KEY = ''your_secret_key''"

text \<open>The two error responses of \<open>verifyToken\<close>: \<open>res.status(c).json({ message: m })\<close>.\<close>

definition token_missing :: "('q, 's) world \<Rightarrow> ('q, 's) world" where
  "token_missing w =
     res_json (JObj [(''message'', JStr ''Access denied, token missing'')])
       (res_status (JNum 403) w)"

definition invalid_token :: "('q, 's) world \<Rightarrow> ('q, 's) world" where
  "invalid_token w =
     res_json (JObj [(''message'', JStr ''Invalid token'')]) (res_status (JNum 401) w)"

text \<open>
  \<open>verifyToken(req, res, next)\<close>. The parameter \<open>nxt\<close> says how the call \<open>next()\<close>
  ends. The \<open>try\<close> block holds \<open>jwt.verify\<close>, the assignment to \<open>req.user\<close> and
  \<open>next()\<close>, so the \<open>catch\<close> branch runs when \<open>jwt.verify\<close> throws and also when
  \<open>next()\<close> does. A header that is absent or empty is falsy and takes the first
  \<open>return\<close>.
\<close>

definition verifyToken ::
  "jwt_lib \<Rightarrow> completion \<Rightarrow> ('q, 's) world \<Rightarrow> completion \<times> ('q, 's) world" where
  "verifyToken lib nxt w =
     (case headers (req w) ''authorization'' of
        None \<Rightarrow> (Returned, token_missing w)
      | Some token \<Rightarrow>
          if token = [] then (Returned, token_missing w)
          else
            let arg = index_js (str_split CHR '' '' token) 1;
                w1 = record_call (JwtVerify arg SECRET_KEY) w
            in (case jwt_verify lib arg SECRET_KEY of
                  Inl error \<Rightarrow> (Returned, invalid_token w1)
                | Inr decoded \<Rightarrow>
                    let w2 = w1\<lparr>req := (req w1)\<lparr>user := decoded\<rparr>\<rparr>;
                        w3 = record_call Next w2
                    in (case nxt of
                          Returned \<Rightarrow> (Returned, w3)
                        | Threw \<Rightarrow> (Returned, invalid_token w3))))"

section \<open>Workouts/middleware/date.js\<close>

text \<open>
  \<open>printDate(req, res, next)\<close>. \<open>new Date()\<close> reads the clock: \<open>now\<close> is the value it
  returns, and \<open>toLocaleTimeString\<close> and \<open>toLocaleDateString\<close> are the platform's
  formatting of it. The function has no \<open>try\<close>: when \<open>next()\<close> throws, so does it.
\<close>

record 't clock =
  now :: 't
  toLocaleTimeString :: "'t \<Rightarrow> string"
  toLocaleDateString :: "'t \<Rightarrow> string"

definition printDate ::
  "'t clock \<Rightarrow> completion \<Rightarrow> ('q, 's) world \<Rightarrow> completion \<times> ('q, 's) world" where
  "printDate clk nxt w =
     (let currentDate = now clk;
          w1 = record_call
                 (ConsoleLog [JStr (toLocaleTimeString clk currentDate @ '', '' @
                                    toLocaleDateString clk currentDate)]) w
      in (nxt, record_call Next w1))"

section \<open>Observing what a middleware did\<close>

text \<open>
  A middleware only appends to the trace and to the list of responses, so what it did
  is what comes after the part that was there before.
\<close>

definition new_calls :: "('q, 's) world \<Rightarrow> ('q, 's) world \<Rightarrow> call list" where
  "new_calls w w' = drop (length (trace w)) (trace w')"

definition new_responses :: "('q, 's) world \<Rightarrow> ('q, 's) world \<Rightarrow> (jsval \<times> body) list" where
  "new_responses w w' = drop (length (sent (res w))) (sent (res w'))"

definition next_calls :: "('q, 's) world \<Rightarrow> ('q, 's) world \<Rightarrow> nat" where
  "next_calls w w' = count_list (new_calls w w') Next"

definition responses_sent :: "('q, 's) world \<Rightarrow> ('q, 's) world \<Rightarrow> nat" where
  "responses_sent w w' = length (new_responses w w')"

text \<open>The two error responses of \<open>verifyToken\<close> as the client sees them.\<close>

definition missing_response :: "jsval \<times> body" where
  "missing_response =
     (JNum 403, JsonBody (JObj [(''message'', JStr ''Access denied, token missing'')]))"

definition invalid_response :: "jsval \<times> body" where
  "invalid_response = (JNum 401, JsonBody (JObj [(''message'', JStr ''Invalid token'')]))"





text \<open>
  The piece of a header value between its first and its second space (or its end):
  the token of \<open>Bearer <token>\<close>.
\<close>

definition segment_after_first_space :: "string \<Rightarrow> string" where
  "segment_after_first_space s =
     takeWhile (\<lambda>c. c \<noteq> CHR '' '') (tl (dropWhile (\<lambda>c. c \<noteq> CHR '' '') s))"

section \<open>Sample requests and libraries\<close>

text \<open>
  A request as Express hands it to the first middleware: the given Authorization
  header (or none), no \<open>user\<close> yet, status 200, nothing sent, nothing called.
\<close>

definition fresh_request :: "string option \<Rightarrow> (unit, unit) world" where
  "fresh_request h =
     \<lparr>req = \<lparr>headers = (\<lambda>k. if k = ''authorization'' then h else None), user = Undefined\<rparr>,
      res = \<lparr>statusCode = JNum 200, sent = []\<rparr>,
      trace = []\<rparr>"

text \<open>
  Two stand-ins for the library: one for which the only valid token under
  \<open>SECRET_KEY\<close> is \<open>good.jwt\<close>, decoding to \<open>{ id: 7 }\<close>, and one that accepts no token
  at all.
\<close>

definition sample_lib :: jwt_lib where
  "sample_lib t k =
     (if t = ''good.jwt'' \<and> k = SECRET_KEY then Inr (JObj [(''id'', JNum 7)])
      else Inl (JsonWebTokenError ''invalid signature''))"

definition expired_lib :: jwt_lib where
  "expired_lib t k = Inl TokenExpiredError"

definition sample_clock :: "nat clock" where
  "sample_clock =
     \<lparr>now = 0, toLocaleTimeString = (\<lambda>t. ''12:00:00 AM''),
      toLocaleDateString = (\<lambda>t. ''1/1/1970'')\<rparr>"

section \<open>The profile router of the Workouts application\<close>

text \<open>
  \<^verbatim>\<open>profile.router.js\<close> registers
  \<open>router.get("/profile", verifyToken, (req, res) => res.json({ message, user: req.user }))\<close>
  with \<open>verifyToken\<close> bound to \<open>require("../middleware/auth")\<close>. Express runs the
  handlers of a route in order: the second runs when the first calls \<open>next()\<close>, inside
  that call. The handler only sends a response, so the call \<open>next()\<close> returns.
\<close>

definition profile_handler :: "('q, 's) world \<Rightarrow> ('q, 's) world" where
  "profile_handler w =
     res_json (JObj [(''message'', JStr ''Profile data''), (''user'', user (req w))]) w"

definition profile_route :: "jwt_lib \<Rightarrow> ('q, 's) world \<Rightarrow> ('q, 's) world" where
  "profile_route lib w =
     (let w1 = snd (verifyToken lib Returned w)
      in if Next \<in> set (new_calls w w1) then profile_handler w1 else w1)"

section \<open>Modules and \<open>require\<close>\<close>

text \<open>
  A JavaScript source file with the specifiers of its \<open>require\<close> calls, in order. A
  path is the list of its segments from the repository's root.
\<close>

type_synonym path = "string list"

record source_file =
  file_path :: path
  requires :: "string list"

text \<open>
  Node resolves a specifier that starts with \<open>./\<close> or \<open>../\<close> against the directory of
  the requiring file, and then tries the path itself, the path with the extensions
  \<open>.js\<close>, \<open>.json\<close> and \<open>.node\<close>, and the index files of the directory of that name.
  Any other specifier names a package or a core module, never a file of the
  repository.
\<close>

definition is_relative :: "string \<Rightarrow> bool" where
  "is_relative spec = (take 2 spec = ''./'' \<or> take 3 spec = ''../'')"

fun normalize :: "path \<Rightarrow> string list \<Rightarrow> path" where
  "normalize dir [] = dir"
| "normalize dir (s # ss) =
     (if s = ''.'' \<or> s = [] then normalize dir ss
      else if s = ''..'' then normalize (butlast dir) ss
      else normalize (dir @ [s]) ss)"

definition with_ext :: "path \<Rightarrow> string \<Rightarrow> path" where
  "with_ext p e = (if p = [] then [] else butlast p @ [last p @ e])"

definition candidates :: "path \<Rightarrow> path list" where
  "candidates p =
     [p, with_ext p ''.js'', with_ext p ''.json'', with_ext p ''.node'',
      p @ [''index.js''], p @ [''index.json''], p @ [''index.node'']]"

definition require_target :: "path list \<Rightarrow> path \<Rightarrow> string \<Rightarrow> path option" where
  "require_target files file spec =
     (if is_relative spec
      then find (\<lambda>c. c \<in> set files)
             (candidates (normalize (butlast file) (str_split CHR ''/'' spec)))
      else None)"

text \<open>The files of the repository that a file requires.\<close>

definition dependencies :: "source_file list \<Rightarrow> source_file \<Rightarrow> path list" where
  "dependencies files f =
     List.map_filter (require_target (map file_path files) (file_path f)) (requires f)"

text \<open>
  The JavaScript files of the repository. The two middleware files are at
  \<^verbatim>\<open>Workouts/middleware\<close>. \<^verbatim>\<open>profile.router.js\<close> and the application's main file are
  the places their own \<open>require\<close> calls give them: the main file, beside the
  \<^verbatim>\<open>middleware\<close> directory, requires \<^verbatim>\<open>./router/profile.router\<close>. The name of the
  main file is the parameter \<open>main\<close>.
\<close>

definition auth_js :: source_file where
  "auth_js =
     \<lparr>file_path = [''Workouts'', ''middleware'', ''auth.js''], requires = [''jsonwebtoken'']\<rparr>"

definition date_js :: source_file where
  "date_js = \<lparr>file_path = [''Workouts'', ''middleware'', ''date.js''], requires = []\<rparr>"

definition profile_router_js :: source_file where
  "profile_router_js =
     \<lparr>file_path = [''Workouts'', ''router'', ''profile.router.js''],
      requires = [''express'', ''../middleware/auth'']\<rparr>"

definition main_js :: "string \<Rightarrow> source_file" where
  "main_js main =
     \<lparr>file_path = [''Workouts'', main],
      requires = [''express'', ''path'', ''./middleware/date'', ''./router/profile.router'']\<rparr>"

definition workouts_files :: "string \<Rightarrow> source_file list" where
  "workouts_files main = [auth_js, date_js, profile_router_js, main_js main]"

text \<open>A file is self-contained when it requires no file of the repository.\<close>

definition self_contained :: "source_file list \<Rightarrow> source_file \<Rightarrow> bool" where
  "self_contained files f = (dependencies files f = [])"

section \<open>The error-handling middleware of Error-Handling/centralized.handling.md\<close>
















section \<open>The User schemas and documents of the database examples\<close>

text \<open>
  A Mongoose schema is written as an object: each field with its type, either bare
  (\<open>name: String\<close>) or with options (\<open>name: { type: String, required: true }\<close>).
\<close>

datatype schema_type = SString | SNumber

datatype schema_field = Field schema_type "(string \<times> jsval) list"

type_synonym schema = "(string \<times> schema_field) list"

fun field_type :: "schema_field \<Rightarrow> schema_type" where
  "field_type (Field t opts) = t"

definition field_types :: "schema \<Rightarrow> (string \<times> schema_type) list" where
  "field_types sch = map (\<lambda>(n, f). (n, field_type f)) sch"

text \<open>The fields an object literal supplies, each with the schema type of its value.\<close>

fun value_type :: "jsval \<Rightarrow> schema_type option" where
  "value_type (JStr s) = Some SString"
| "value_type (JNum n) = Some SNumber"
| "value_type v = None"

definition supplied_fields :: "(string \<times> jsval) list \<Rightarrow> (string \<times> schema_type option) list" where
  "supplied_fields doc = map (\<lambda>(n, v). (n, value_type v)) doc"

text \<open>A document supplies exactly the fields of a schema, with values of their types.\<close>

definition supplies_exactly :: "schema \<Rightarrow> (string \<times> jsval) list \<Rightarrow> bool" where
  "supplies_exactly sch doc =
     (supplied_fields doc = map (\<lambda>(n, t). (n, Some t)) (field_types sch))"

text \<open>The shape the specification names: name, email, age.\<close>

definition user_shape :: "(string \<times> schema_type) list" where
  "user_shape = [(''name'', SString), (''email'', SString), (''age'', SNumber)]"

text \<open>Databases/crud.operations.md: the schema of the create example and its document.\<close>

definition crud_userSchema :: schema where
  "crud_userSchema =
     [(''name'', Field SString []), (''email'', Field SString []), (''age'', Field SNumber [])]"

definition crud_createUser_doc :: "(string \<times> jsval) list" where
  "crud_createUser_doc =
     [(''name'', JStr ''John Doe''), (''email'', JStr ''john@example.com''), (''age'', JNum 30)]"

text \<open>The same file, the comprehensive example.\<close>

definition crud_full_userSchema :: schema where
  "crud_full_userSchema =
     [(''name'', Field SString []), (''email'', Field SString []), (''age'', Field SNumber [])]"

definition crud_full_createUser_doc :: "(string \<times> jsval) list" where
  "crud_full_createUser_doc =
     [(''name'', JStr ''Alice''), (''email'', JStr ''alice@example.com''), (''age'', JNum 25)]"

text \<open>Database Connection in Express.js: the schema with validation options.\<close>

definition connection_userSchema :: schema where
  "connection_userSchema =
     [(''name'', Field SString [(''required'', JBool True)]),
      (''email'', Field SString [(''required'', JBool True), (''unique'', JBool True)]),
      (''age'', Field SNumber [])]"

text \<open>
  What is Express.js?, section Integration with Databases: \<open>UserSchema\<close> and the
  document the \<open>/user\<close> route saves.
\<close>

definition overview_UserSchema :: schema where
  "overview_UserSchema = [(''name'', Field SString []), (''email'', Field SString [])]"

definition overview_user_doc :: "(string \<times> jsval) list" where
  "overview_user_doc = [(''name'', JStr ''John Doe''), (''email'', JStr ''john@example.com'')]"

section \<open>The cluster example of Optimization/concurrency.clustering.md\<close>

text \<open>A number in a template string or a string concatenation: its decimal digits.\<close>

fun digits :: "nat \<Rightarrow> string" where
  "digits n =
     (if n < 10 then [char_of (48 + n)] else digits (n div 10) @ [char_of (48 + n mod 10)])"

declare digits.simps [simp del]





text \<open>The worker's route handler and the callback of \<open>app.listen\<close>.\<close>

definition worker_root_handler :: "nat \<Rightarrow> ('q, 's) world \<Rightarrow> ('q, 's) world" where
  "worker_root_handler pid w = res_send (''Hello from Worker '' @ digits pid) w"


section \<open>Properties of split and indexing\<close>

lemma str_split_nonempty: "str_split c s \<noteq> []"
  by (induction s) (auto split: list.splits)

lemma str_split_no_sep: "c \<notin> set s \<Longrightarrow> str_split c s = [s]"
  by (induction s) auto

lemma str_split_hd: "hd (str_split c s) = takeWhile (\<lambda>x. x \<noteq> c) s"
  by (induction s) (auto split: list.splits simp: str_split_nonempty)

lemma str_split_tl:
  "c \<in> set s \<Longrightarrow> tl (str_split c s) = str_split c (tl (dropWhile (\<lambda>x. x \<noteq> c) s))"
  by (induction s) (auto split: list.splits simp: str_split_nonempty)

text \<open>Without a space there is no second piece; with one, it is the segment after it.\<close>

lemma index_split_no_space: "c \<notin> set s \<Longrightarrow> index_js (str_split c s) 1 = None"
  by (simp add: str_split_no_sep index_js_def)

lemma index_split_space:
  assumes "CHR '' '' \<in> set s"
  shows "index_js (str_split CHR '' '' s) 1 = Some (segment_after_first_space s)"
proof -
  let ?r = "tl (dropWhile (\<lambda>x. x \<noteq> CHR '' '') s)"
  have t: "tl (str_split CHR '' '' s) = str_split CHR '' '' ?r"
    using assms by (rule str_split_tl)
  obtain a as where a: "str_split CHR '' '' s = a # as"
    using str_split_nonempty by (cases "str_split CHR '' '' s") auto
  obtain b bs where b: "str_split CHR '' '' ?r = b # bs"
    using str_split_nonempty by (cases "str_split CHR '' '' ?r") auto
  have "b = takeWhile (\<lambda>x. x \<noteq> CHR '' '') ?r"
    using str_split_hd [of "CHR '' ''" ?r] b by simp
  with a b t show ?thesis
    by (simp add: index_js_def segment_after_first_space_def)
qed

lemma index_split_Some_space:
  assumes "index_js (str_split CHR '' '' s) 1 = Some seg"
  shows "CHR '' '' \<in> set s \<and> seg = segment_after_first_space s"
proof (cases "CHR '' '' \<in> set s")
  case True
  with assms index_split_space [of s] show ?thesis by simp
next
  case False
  with assms index_split_no_space [of "CHR '' ''" s] show ?thesis by simp
qed

section \<open>The paths through verifyToken\<close>

lemma token_missing_effect:
  "req (token_missing w) = req w"
  "new_calls w (token_missing w) =
     [ResStatus (JNum 403), ResJson (JObj [(''message'', JStr ''Access denied, token missing'')])]"
  "new_responses w (token_missing w) = [missing_response]"
  by (simp_all add: token_missing_def res_json_def res_status_def new_calls_def
        new_responses_def missing_response_def)

lemma invalid_token_effect:
  "req (invalid_token w) = req w"
  "trace (invalid_token w) =
     trace w @ [ResStatus (JNum 401), ResJson (JObj [(''message'', JStr ''Invalid token'')])]"
  "sent (res (invalid_token w)) = sent (res w) @ [invalid_response]"
  by (simp_all add: invalid_token_def res_json_def res_status_def invalid_response_def)

lemma record_call_effect:
  "req (record_call c w) = req w"
  "res (record_call c w) = res w"
  "trace (record_call c w) = trace w @ [c]"
  by (simp_all add: record_call_def)

text \<open>The header is absent or empty: the first \<open>return\<close>.\<close>

lemma verifyToken_missing:
  assumes "headers (req w) ''authorization'' = None \<or> headers (req w) ''authorization'' = Some []"
  shows "verifyToken lib nxt w = (Returned, token_missing w)"
  using assms by (auto simp: verifyToken_def)

text \<open>\<open>jwt.verify\<close> throws: the \<open>catch\<close> branch.\<close>

lemma verifyToken_rejected:
  assumes "headers (req w) ''authorization'' = Some hdr" and "hdr \<noteq> []"
    and "jwt_verify lib (index_js (str_split CHR '' '' hdr) 1) SECRET_KEY = Inl e"
  shows "verifyToken lib nxt w =
           (Returned,
            invalid_token
              (record_call (JwtVerify (index_js (str_split CHR '' '' hdr) 1) SECRET_KEY) w))"
  using assms by (simp add: verifyToken_def Let_def)

text \<open>\<open>jwt.verify\<close> returns: \<open>req.user\<close> is set and \<open>next()\<close> is called.\<close>

lemma verifyToken_accepted:
  assumes "headers (req w) ''authorization'' = Some hdr" and "hdr \<noteq> []"
    and "jwt_verify lib (index_js (str_split CHR '' '' hdr) 1) SECRET_KEY = Inr decoded"
  shows "verifyToken lib nxt w =
           (let w1 = record_call (JwtVerify (index_js (str_split CHR '' '' hdr) 1) SECRET_KEY) w;
                w3 = record_call Next (w1\<lparr>req := (req w1)\<lparr>user := decoded\<rparr>\<rparr>)
            in (Returned, case nxt of Returned \<Rightarrow> w3 | Threw \<Rightarrow> invalid_token w3))"
  using assms by (simp add: verifyToken_def Let_def split: completion.splits)

text \<open>The four ways a call of \<open>verifyToken\<close> can go, with what each one did.\<close>

lemma verifyToken_cases:
  obtains
    (missing) "headers (req w) ''authorization'' = None \<or> headers (req w) ''authorization'' = Some []"
      "fst (verifyToken lib nxt w) = Returned"
      "req (snd (verifyToken lib nxt w)) = req w"
      "new_calls w (snd (verifyToken lib nxt w)) =
         [ResStatus (JNum 403), ResJson (JObj [(''message'', JStr ''Access denied, token missing'')])]"
      "new_responses w (snd (verifyToken lib nxt w)) = [missing_response]"
  | (rejected) hdr e where "headers (req w) ''authorization'' = Some hdr" "hdr \<noteq> []"
      "jwt_verify lib (index_js (str_split CHR '' '' hdr) 1) SECRET_KEY = Inl e"
      "fst (verifyToken lib nxt w) = Returned"
      "req (snd (verifyToken lib nxt w)) = req w"
      "new_calls w (snd (verifyToken lib nxt w)) =
         [JwtVerify (index_js (str_split CHR '' '' hdr) 1) SECRET_KEY,
          ResStatus (JNum 401), ResJson (JObj [(''message'', JStr ''Invalid token'')])]"
      "new_responses w (snd (verifyToken lib nxt w)) = [invalid_response]"
  | (passed) hdr decoded where "headers (req w) ''authorization'' = Some hdr" "hdr \<noteq> []"
      "jwt_verify lib (index_js (str_split CHR '' '' hdr) 1) SECRET_KEY = Inr decoded"
      "nxt = Returned"
      "fst (verifyToken lib nxt w) = Returned"
      "req (snd (verifyToken lib nxt w)) = (req w)\<lparr>user := decoded\<rparr>"
      "new_calls w (snd (verifyToken lib nxt w)) =
         [JwtVerify (index_js (str_split CHR '' '' hdr) 1) SECRET_KEY, Next]"
      "new_responses w (snd (verifyToken lib nxt w)) = []"
  | (next_threw) hdr decoded where "headers (req w) ''authorization'' = Some hdr" "hdr \<noteq> []"
      "jwt_verify lib (index_js (str_split CHR '' '' hdr) 1) SECRET_KEY = Inr decoded"
      "nxt = Threw"
      "fst (verifyToken lib nxt w) = Returned"
      "req (snd (verifyToken lib nxt w)) = (req w)\<lparr>user := decoded\<rparr>"
      "new_calls w (snd (verifyToken lib nxt w)) =
         [JwtVerify (index_js (str_split CHR '' '' hdr) 1) SECRET_KEY, Next,
          ResStatus (JNum 401), ResJson (JObj [(''message'', JStr ''Invalid token'')])]"
      "new_responses w (snd (verifyToken lib nxt w)) = [invalid_response]"
proof (cases "headers (req w) ''authorization'' = None \<or> headers (req w) ''authorization'' = Some []")
  case True
  then have "verifyToken lib nxt w = (Returned, token_missing w)"
    by (rule verifyToken_missing)
  with True show ?thesis
    by (intro missing) (simp_all add: token_missing_effect)
next
  case False
  then obtain hdr where h: "headers (req w) ''authorization'' = Some hdr" "hdr \<noteq> []"
    by auto
  let ?arg = "index_js (str_split CHR '' '' hdr) 1"
  show ?thesis
  proof (cases "jwt_verify lib ?arg SECRET_KEY")
    case (Inl e)
    with h have "verifyToken lib nxt w =
        (Returned, invalid_token (record_call (JwtVerify ?arg SECRET_KEY) w))"
      by (rule verifyToken_rejected)
    with h Inl show ?thesis
      by (intro rejected [of hdr e])
         (simp_all add: invalid_token_effect record_call_effect new_calls_def new_responses_def)
  next
    case (Inr decoded)
    note v = verifyToken_accepted [OF h Inr, of nxt]
    show ?thesis
    proof (cases nxt)
      case Returned
      with h Inr v show ?thesis
        by (intro passed [of hdr decoded])
           (simp_all add: Let_def record_call_def new_calls_def new_responses_def)
    next
      case Threw
      with h Inr v show ?thesis
        by (intro next_threw [of hdr decoded])
           (simp_all add: Let_def invalid_token_effect record_call_def new_calls_def
              new_responses_def)
    qed
  qed
qed

section \<open>verifyToken: the missing token\<close>

text \<open>
  C3. For every request whose headers hold no truthy \<open>authorization\<close> entry (the header
  is absent or the empty string), \<open>verifyToken\<close> responds with status 403 and the JSON
  body \<open>{ message: "Access denied, token missing" }\<close>, makes no other call (so neither
  \<open>jwt.verify\<close> nor \<open>next\<close>), and leaves the request, \<open>req.user\<close> included, as it was.
\<close>

theorem verifyToken_token_missing:
  assumes "headers (req w) ''authorization'' = None \<or> headers (req w) ''authorization'' = Some []"
  shows "fst (verifyToken lib nxt w) = Returned
       \<and> new_responses w (snd (verifyToken lib nxt w)) =
           [(JNum 403, JsonBody (JObj [(''message'', JStr ''Access denied, token missing'')]))]
       \<and> new_calls w (snd (verifyToken lib nxt w)) =
           [ResStatus (JNum 403),
            ResJson (JObj [(''message'', JStr ''Access denied, token missing'')])]
       \<and> (\<forall>t k. JwtVerify t k \<notin> set (new_calls w (snd (verifyToken lib nxt w))))
       \<and> req (snd (verifyToken lib nxt w)) = req w
       \<and> Next \<notin> set (new_calls w (snd (verifyToken lib nxt w)))"
proof -
  from assms have "verifyToken lib nxt w = (Returned, token_missing w)"
    by (rule verifyToken_missing)
  then show ?thesis
    by (simp add: token_missing_effect missing_response_def)
qed

theorem verifyToken_token_missing_witness:
  "headers (req (fresh_request None)) ''authorization'' = None
   \<and> new_responses (fresh_request None)
        (snd (verifyToken sample_lib Returned (fresh_request None))) =
       [(JNum 403, JsonBody (JObj [(''message'', JStr ''Access denied, token missing'')]))]
   \<and> headers (req (fresh_request (Some []))) ''authorization'' = Some []
   \<and> new_calls (fresh_request (Some []))
        (snd (verifyToken sample_lib Returned (fresh_request (Some [])))) =
       [ResStatus (JNum 403),
        ResJson (JObj [(''message'', JStr ''Access denied, token missing'')])]
   \<and> user (req (snd (verifyToken sample_lib Returned (fresh_request (Some []))))) = Undefined"
  using verifyToken_token_missing [of "fresh_request None" sample_lib Returned]
    verifyToken_token_missing [of "fresh_request (Some [])" sample_lib Returned]
  by (simp add: fresh_request_def)

section \<open>verifyToken: the second segment of the header\<close>

text \<open>
  The claim C4 as stated covers every header value without a space, and so the empty
  one. There the middleware answers 403 "Access denied, token missing" and does not
  call \<open>jwt.verify\<close> at all.
\<close>

theorem empty_header_is_missing_not_invalid:
  "headers (req (fresh_request (Some []))) ''authorization'' = Some []
   \<and> CHR '' '' \<notin> set ([] :: string)
   \<and> new_responses (fresh_request (Some []))
        (snd (verifyToken sample_lib Returned (fresh_request (Some [])))) =
       [(JNum 403, JsonBody (JObj [(''message'', JStr ''Access denied, token missing'')]))]
   \<and> new_calls (fresh_request (Some []))
        (snd (verifyToken sample_lib Returned (fresh_request (Some [])))) =
       [ResStatus (JNum 403),
        ResJson (JObj [(''message'', JStr ''Access denied, token missing'')])]"
  by (simp add: fresh_request_def verifyToken_def token_missing_def res_json_def
        res_status_def new_responses_def new_calls_def)

text \<open>
  C4, amended. For every request whose Authorization header value is not empty and
  contains no space, the value passed to \<open>jwt.verify\<close> is \<open>undefined\<close>, the middleware
  responds with status 401 and \<open>{ message: "Invalid token" }\<close> and does not call
  \<open>next\<close>, whatever the library would say of the header value itself. And whenever
  \<open>next\<close> is called, the header has a space, the segment after its first space
  verifies against the secret key, and \<open>req.user\<close> is the decoded payload.
\<close>

theorem verifyToken_second_segment:
  "(headers (req w) ''authorization'' = Some hdr \<and> hdr \<noteq> [] \<and> CHR '' '' \<notin> set hdr \<longrightarrow>
      fst (verifyToken lib nxt w) = Returned
      \<and> new_calls w (snd (verifyToken lib nxt w)) =
          [JwtVerify None SECRET_KEY, ResStatus (JNum 401),
           ResJson (JObj [(''message'', JStr ''Invalid token'')])]
      \<and> new_responses w (snd (verifyToken lib nxt w)) =
          [(JNum 401, JsonBody (JObj [(''message'', JStr ''Invalid token'')]))]
      \<and> Next \<notin> set (new_calls w (snd (verifyToken lib nxt w))))
   \<and> (Next \<in> set (new_calls w (snd (verifyToken lib nxt w))) \<longrightarrow>
        (\<exists>h decoded.
           headers (req w) ''authorization'' = Some h \<and> CHR '' '' \<in> set h
           \<and> jwt_verify lib (Some (segment_after_first_space h)) SECRET_KEY = Inr decoded
           \<and> user (req (snd (verifyToken lib nxt w))) = decoded))"
proof (intro conjI impI)
  assume a: "headers (req w) ''authorization'' = Some hdr \<and> hdr \<noteq> [] \<and> CHR '' '' \<notin> set hdr"
  then have arg: "index_js (str_split CHR '' '' hdr) 1 = None"
    using index_split_no_space [of "CHR '' ''" hdr] by blast
  have "jwt_verify lib None SECRET_KEY = Inl (JsonWebTokenError ''jwt must be provided'')"
    by (simp add: jwt_verify_def)
  with a arg have v: "verifyToken lib nxt w =
      (Returned, invalid_token (record_call (JwtVerify None SECRET_KEY) w))"
    using verifyToken_rejected [of w hdr lib] by simp
  show "fst (verifyToken lib nxt w) = Returned"
    by (simp add: v)
  show "new_calls w (snd (verifyToken lib nxt w)) =
          [JwtVerify None SECRET_KEY, ResStatus (JNum 401),
           ResJson (JObj [(''message'', JStr ''Invalid token'')])]"
    by (simp add: v invalid_token_effect record_call_effect new_calls_def)
  then show "Next \<notin> set (new_calls w (snd (verifyToken lib nxt w)))"
    by simp
  show "new_responses w (snd (verifyToken lib nxt w)) =
          [(JNum 401, JsonBody (JObj [(''message'', JStr ''Invalid token'')]))]"
    by (simp add: v invalid_token_effect record_call_effect new_responses_def
          invalid_response_def)
next
  assume n: "Next \<in> set (new_calls w (snd (verifyToken lib nxt w)))"
  have "\<exists>h decoded. headers (req w) ''authorization'' = Some h
          \<and> jwt_verify lib (index_js (str_split CHR '' '' h) 1) SECRET_KEY = Inr decoded
          \<and> user (req (snd (verifyToken lib nxt w))) = decoded"
    using n by - (rule verifyToken_cases [where w = w and lib = lib and nxt = nxt], auto)
  then obtain h decoded where h: "headers (req w) ''authorization'' = Some h"
    and v: "jwt_verify lib (index_js (str_split CHR '' '' h) 1) SECRET_KEY = Inr decoded"
    and u: "user (req (snd (verifyToken lib nxt w))) = decoded"
    by blast
  from v obtain seg where seg: "index_js (str_split CHR '' '' h) 1 = Some seg"
    by (cases "index_js (str_split CHR '' '' h) 1") (auto simp: jwt_verify_def)
  then have "CHR '' '' \<in> set h \<and> seg = segment_after_first_space h"
    by (rule index_split_Some_space)
  with h v u seg
  show "\<exists>h decoded.
           headers (req w) ''authorization'' = Some h \<and> CHR '' '' \<in> set h
           \<and> jwt_verify lib (Some (segment_after_first_space h)) SECRET_KEY = Inr decoded
           \<and> user (req (snd (verifyToken lib nxt w))) = decoded"
    by auto
qed

theorem verifyToken_second_segment_witness:
  "headers (req (fresh_request (Some ''good.jwt''))) ''authorization'' = Some ''good.jwt''
   \<and> ''good.jwt'' \<noteq> [] \<and> CHR '' '' \<notin> set ''good.jwt''
   \<and> sample_lib ''good.jwt'' SECRET_KEY = Inr (JObj [(''id'', JNum 7)])
   \<and> new_responses (fresh_request (Some ''good.jwt''))
        (snd (verifyToken sample_lib Returned (fresh_request (Some ''good.jwt'')))) =
       [(JNum 401, JsonBody (JObj [(''message'', JStr ''Invalid token'')]))]
   \<and> Next \<in> set (new_calls (fresh_request (Some ''Bearer good.jwt''))
        (snd (verifyToken sample_lib Returned (fresh_request (Some ''Bearer good.jwt'')))))
   \<and> segment_after_first_space ''Bearer good.jwt'' = ''good.jwt''
   \<and> user (req (snd (verifyToken sample_lib Returned
        (fresh_request (Some ''Bearer good.jwt''))))) = JObj [(''id'', JNum 7)]"
  using verifyToken_second_segment
      [of "fresh_request (Some ''good.jwt'')" "''good.jwt''" sample_lib Returned]
    verifyToken_second_segment
      [of "fresh_request (Some ''Bearer good.jwt'')" "''Bearer good.jwt''" sample_lib Returned]
  by (simp add: fresh_request_def verifyToken_def index_js_def jwt_verify_def sample_lib_def
        SECRET_KEY_def record_call_def new_calls_def segment_after_first_space_def)

section \<open>The pipeline contract\<close>

text \<open>
  Under Express a middleware's \<open>next\<close> is the router's: it runs the rest of the
  pipeline and returns. Should \<open>next()\<close> throw all the same, \<open>verifyToken\<close>, whose
  \<open>try\<close> block holds the call, has by then called \<open>next\<close> and goes on to send the 401
  response.
\<close>

lemma verifyToken_next_throws:
  assumes "headers (req w) ''authorization'' = Some hdr" and "hdr \<noteq> []"
    and "jwt_verify lib (index_js (str_split CHR '' '' hdr) 1) SECRET_KEY = Inr decoded"
  shows "next_calls w (snd (verifyToken lib Threw w)) = 1
       \<and> new_responses w (snd (verifyToken lib Threw w)) = [invalid_response]"
  using verifyToken_accepted [OF assms, of Threw]
  by (simp add: Let_def invalid_token_effect record_call_effect next_calls_def new_calls_def
        new_responses_def)


section \<open>printDate changes nothing\<close>

text \<open>
  C7. For every request, \<open>printDate\<close> calls \<open>next\<close> exactly once and leaves the request
  and the response as they were, every field of both: all it does besides is one
  \<open>console.log\<close> of the current time and date.
\<close>

theorem printDate_frame:
  "req (snd (printDate clk nxt w)) = req w
   \<and> res (snd (printDate clk nxt w)) = res w
   \<and> new_calls w (snd (printDate clk nxt w)) =
       [ConsoleLog [JStr (toLocaleTimeString clk (now clk) @ '', '' @
                          toLocaleDateString clk (now clk))],
        Next]
   \<and> next_calls w (snd (printDate clk nxt w)) = 1
   \<and> responses_sent w (snd (printDate clk nxt w)) = 0
   \<and> fst (printDate clk nxt w) = nxt"
  by (simp add: printDate_def Let_def record_call_def next_calls_def responses_sent_def
        new_calls_def new_responses_def)

section \<open>Branches and failure modes of the middleware\<close>





section \<open>The status codes of the error handlers\<close>




section \<open>The User shapes\<close>

text \<open>
  The claim C8 has every User of the database examples carry exactly name, email and
  age. The \<open>UserSchema\<close> of the overview has no \<open>age\<close>, and the document saved there
  supplies none.
\<close>

theorem overview_user_has_two_fields:
  "field_types overview_UserSchema = [(''name'', SString), (''email'', SString)]
   \<and> field_types overview_UserSchema \<noteq> user_shape
   \<and> supplied_fields overview_user_doc = [(''name'', Some SString), (''email'', Some SString)]"
  by (simp add: field_types_def overview_UserSchema_def user_shape_def supplied_fields_def
        overview_user_doc_def)

text \<open>
  C8, amended. The \<open>userSchema\<close> of both CRUD examples and of the database connection
  tutorial has exactly the three fields name (String), email (String) and age (Number),
  and both User documents constructed in the CRUD examples supply values for exactly
  those fields. The \<open>UserSchema\<close> of the overview has exactly the two fields name
  (String) and email (String), and its document supplies exactly those two.
\<close>

theorem user_shapes:
  "field_types crud_userSchema = user_shape
   \<and> field_types crud_full_userSchema = user_shape
   \<and> field_types connection_userSchema = user_shape
   \<and> supplies_exactly crud_userSchema crud_createUser_doc
   \<and> supplies_exactly crud_full_userSchema crud_full_createUser_doc
   \<and> field_types overview_UserSchema = [(''name'', SString), (''email'', SString)]
   \<and> supplies_exactly overview_UserSchema overview_user_doc"
  by (simp add: field_types_def supplies_exactly_def supplied_fields_def user_shape_def
        crud_userSchema_def crud_full_userSchema_def connection_userSchema_def
        crud_createUser_doc_def crud_full_createUser_doc_def overview_UserSchema_def
        overview_user_doc_def)

section \<open>Files that require files\<close>

lemma split_specifiers:
  "str_split CHR ''/'' ''../middleware/auth'' = [''..'', ''middleware'', ''auth'']"
  "str_split CHR ''/'' ''./middleware/date'' = [''.'', ''middleware'', ''date'']"
  "str_split CHR ''/'' ''./router/profile.router'' = [''.'', ''router'', ''profile.router'']"
  by simp_all

text \<open>
  The claim C9 has no file of the repository require another. \<^verbatim>\<open>profile.router.js\<close>
  requires \<^verbatim>\<open>../middleware/auth\<close>, which is \<^verbatim>\<open>Workouts/middleware/auth.js\<close>, and the
  response of its route carries the payload that the function exported there decoded.
\<close>

theorem profile_router_requires_auth:
  "dependencies (workouts_files ''index.js'') profile_router_js =
     [[''Workouts'', ''middleware'', ''auth.js'']]
   \<and> \<not> self_contained (workouts_files ''index.js'') profile_router_js
   \<and> new_responses (fresh_request (Some ''Bearer good.jwt''))
        (profile_route sample_lib (fresh_request (Some ''Bearer good.jwt''))) =
       [(JNum 200,
         JsonBody (JObj [(''message'', JStr ''Profile data''),
                         (''user'', JObj [(''id'', JNum 7)])]))]
   \<and> new_responses (fresh_request None) (profile_route sample_lib (fresh_request None)) =
       [(JNum 403, JsonBody (JObj [(''message'', JStr ''Access denied, token missing'')]))]"
proof (intro conjI)
  show d: "dependencies (workouts_files ''index.js'') profile_router_js =
     [[''Workouts'', ''middleware'', ''auth.js'']]"
    by (simp add: dependencies_def workouts_files_def auth_js_def date_js_def
          profile_router_js_def main_js_def require_target_def is_relative_def
          split_specifiers candidates_def with_ext_def)
  then show "\<not> self_contained (workouts_files ''index.js'') profile_router_js"
    by (simp add: self_contained_def)
  show "new_responses (fresh_request (Some ''Bearer good.jwt''))
        (profile_route sample_lib (fresh_request (Some ''Bearer good.jwt''))) =
       [(JNum 200,
         JsonBody (JObj [(''message'', JStr ''Profile data''),
                         (''user'', JObj [(''id'', JNum 7)])]))]"
    by (simp add: profile_route_def profile_handler_def fresh_request_def verifyToken_def
          index_js_def jwt_verify_def sample_lib_def SECRET_KEY_def record_call_def
          new_calls_def new_responses_def res_json_def)
  show "new_responses (fresh_request None) (profile_route sample_lib (fresh_request None)) =
       [(JNum 403, JsonBody (JObj [(''message'', JStr ''Access denied, token missing'')]))]"
    by (simp add: profile_route_def profile_handler_def fresh_request_def verifyToken_def
          token_missing_def new_calls_def new_responses_def res_json_def res_status_def)
qed

text \<open>
  C9, amended. The two middleware files require no file of the repository. The other
  JavaScript files do: \<^verbatim>\<open>profile.router.js\<close> requires
  \<^verbatim>\<open>middleware/auth.js\<close>, and the main file requires \<^verbatim>\<open>middleware/date.js\<close>
  and \<^verbatim>\<open>router/profile.router.js\<close>. Data flows along: when the token of a request
  verifies, the response of the profile route carries the payload that \<open>verifyToken\<close>
  decoded and stored in \<open>req.user\<close>.
\<close>

theorem workouts_module_graph:
  "self_contained (workouts_files m) auth_js
   \<and> self_contained (workouts_files m) date_js
   \<and> dependencies (workouts_files m) profile_router_js = [file_path auth_js]
   \<and> dependencies (workouts_files m) (main_js m) =
       [file_path date_js, file_path profile_router_js]
   \<and> (headers (req w) ''authorization'' = Some hdr \<and> hdr \<noteq> []
        \<and> jwt_verify lib (index_js (str_split CHR '' '' hdr) 1) SECRET_KEY = Inr decoded \<longrightarrow>
      new_responses w (profile_route lib w) =
        [(statusCode (res w),
          JsonBody (JObj [(''message'', JStr ''Profile data''), (''user'', decoded)]))])"
proof (intro conjI impI)
  show "self_contained (workouts_files m) auth_js"
    by (simp add: self_contained_def dependencies_def auth_js_def require_target_def
          is_relative_def)
  show "self_contained (workouts_files m) date_js"
    by (simp add: self_contained_def dependencies_def date_js_def)
  show "dependencies (workouts_files m) profile_router_js = [file_path auth_js]"
    by (simp add: dependencies_def workouts_files_def auth_js_def date_js_def
          profile_router_js_def main_js_def require_target_def is_relative_def
          split_specifiers candidates_def with_ext_def)
  show "dependencies (workouts_files m) (main_js m) =
       [file_path date_js, file_path profile_router_js]"
    by (simp add: dependencies_def workouts_files_def auth_js_def date_js_def
          profile_router_js_def main_js_def require_target_def is_relative_def
          split_specifiers candidates_def with_ext_def)
next
  assume a: "headers (req w) ''authorization'' = Some hdr \<and> hdr \<noteq> []
        \<and> jwt_verify lib (index_js (str_split CHR '' '' hdr) 1) SECRET_KEY = Inr decoded"
  then have "verifyToken lib Returned w =
      (let w1 = record_call (JwtVerify (index_js (str_split CHR '' '' hdr) 1) SECRET_KEY) w;
           w3 = record_call Next (w1\<lparr>req := (req w1)\<lparr>user := decoded\<rparr>\<rparr>)
       in (Returned, case Returned of Returned \<Rightarrow> w3 | Threw \<Rightarrow> invalid_token w3))"
    using verifyToken_accepted [of w hdr lib decoded Returned] by blast
  then show "new_responses w (profile_route lib w) =
        [(statusCode (res w),
          JsonBody (JObj [(''message'', JStr ''Profile data''), (''user'', decoded)]))]"
    by (simp add: profile_route_def profile_handler_def Let_def record_call_def
          new_calls_def new_responses_def res_json_def)
qed

theorem workouts_module_graph_witness:
  "headers (req (fresh_request (Some ''Bearer good.jwt''))) ''authorization'' =
     Some ''Bearer good.jwt''
   \<and> jwt_verify sample_lib (index_js (str_split CHR '' '' ''Bearer good.jwt'') 1) SECRET_KEY =
       Inr (JObj [(''id'', JNum 7)])
   \<and> new_responses (fresh_request (Some ''Bearer good.jwt''))
        (profile_route sample_lib (fresh_request (Some ''Bearer good.jwt''))) =
       [(JNum 200,
         JsonBody (JObj [(''message'', JStr ''Profile data''),
                         (''user'', JObj [(''id'', JNum 7)])]))]
   \<and> dependencies (workouts_files ''index.js'') (main_js ''index.js'') =
       [[''Workouts'', ''middleware'', ''date.js''],
        [''Workouts'', ''router'', ''profile.router.js'']]"
  using workouts_module_graph
      [of "''index.js''" "fresh_request (Some ''Bearer good.jwt'')" "''Bearer good.jwt''"
          sample_lib "JObj [(''id'', JNum 7)]"]
  by (simp add: fresh_request_def index_js_def jwt_verify_def sample_lib_def SECRET_KEY_def
        date_js_def profile_router_js_def)

section \<open>The cluster example\<close>



end
